theory Spec2Isabelle
  imports Complex_Main
begin

section \<open>Assinador de documentos: a shallow embedding of app.py and auth.py\<close>

text \<open>
  Conventions of the embedding.
  \<^item> A Python \<open>str\<close> is a \<open>string\<close> and a Python \<open>bytes\<close> value is a list of
    characters as well (an Isabelle character is one byte). Code points are taken to be
    below 256 (ASCII and Latin-1).
  \<^item> A Python \<open>float\<close> is a \<open>real\<close>: the values are finite and the arithmetic is
    exact. \<open>int(x)\<close> truncates toward zero and \<open>round(x)\<close> rounds half to even.
  \<^item> A Python \<open>int\<close> is an \<open>int\<close>.
  \<^item> \<open>hashlib.sha256\<close> is a library of the interpreter, not code of the repository.
    Its digest function is a parameter \<open>H\<close> of the model (bytes to hex digest); a hash
    object is the sequence of bytes fed to it so far, as hashlib documents
    (\<open>update(a); update(b)\<close> is \<open>update(a + b)\<close>).
  \<^item> An exception is a value of the type \<open>exn\<close>; code that can raise returns
    \<open>exn + 'a\<close>, with \<open>Inl\<close> the exception.
\<close>

subsection \<open>Strings\<close>

definition isspace :: "char \<Rightarrow> bool" where
  \<comment> \<open>\<open>str.isspace\<close> on one code point below 256\<close>
  "isspace c = (let n = (of_char c :: nat) in
     (9 \<le> n \<and> n \<le> 13) \<or> (28 \<le> n \<and> n \<le> 32) \<or> n = 133 \<or> n = 160)"

definition strip :: "string \<Rightarrow> string" where
  \<comment> \<open>\<open>str.strip()\<close>\<close>
  "strip s = rev (dropWhile isspace (rev (dropWhile isspace s)))"

definition lower_chr :: "char \<Rightarrow> char" where
  \<comment> \<open>\<open>str.lower()\<close> on one code point below 256: A-Z and the Latin-1 capitals\<close>
  "lower_chr c = (let n = (of_char c :: nat) in
     if (65 \<le> n \<and> n \<le> 90) \<or> (192 \<le> n \<and> n \<le> 222 \<and> n \<noteq> 215)
     then char_of (n + 32) else c)"

definition lower :: "string \<Rightarrow> string" where
  "lower s = map lower_chr s"

fun startswith :: "string \<Rightarrow> string \<Rightarrow> bool" where
  \<comment> \<open>\<open>s.startswith(p)\<close>\<close>
  "startswith s [] = True"
| "startswith [] (p # ps) = False"
| "startswith (c # cs) (p # ps) = (c = p \<and> startswith cs ps)"


subsection \<open>Exceptions, files and directories\<close>

datatype exn =
    FileNotFoundError
  | IsADirectoryError
  | ZeroDivisionError
  | BadRequestKeyError
  | LibraryError string

type_synonym path = string
type_synonym bytes = string

text \<open>
  The file system: the regular files with their content, and the directories with the
  names \<open>os.listdir\<close> returns, in the order it returns them.
\<close>

record filesystem =
  arquivos :: "path \<rightharpoonup> bytes"
  pastas :: "path \<rightharpoonup> string list"

definition open_rb :: "filesystem \<Rightarrow> path \<Rightarrow> exn + bytes" where
  \<comment> \<open>\<open>open(path, 'rb')\<close>, giving the bytes the reads will return\<close>
  "open_rb fs p =
     (case arquivos fs p of
        Some bs \<Rightarrow> Inr bs
      | None \<Rightarrow> (if pastas fs p \<noteq> None then Inl IsADirectoryError
                 else Inl FileNotFoundError))"


definition join_step :: "path \<Rightarrow> path \<Rightarrow> path" where
  \<comment> \<open>one round of the loop of \<open>posixpath.join\<close>\<close>
  "join_step p b =
     (if startswith b ''/'' then b
      else if p = [] \<or> last p = CHR ''/'' then p @ b
      else p @ ''/'' @ b)"

definition os_path_join :: "path \<Rightarrow> path list \<Rightarrow> path" where
  \<comment> \<open>\<open>os.path.join(a, *p)\<close> on a POSIX system\<close>
  "os_path_join a ps = foldl join_step a ps"

subsection \<open>The content hasher (app.py, lines 69-74 and 577-582)\<close>

type_synonym digest_fn = "bytes \<Rightarrow> string"

text \<open>
  A hash object is the bytes it has been fed. \<open>sha256_new\<close> is \<open>hashlib.sha256()\<close>,
  \<open>sha256_update\<close> is \<open>h.update(chunk)\<close> and \<open>hexdigest H h\<close> is \<open>h.hexdigest()\<close>.
\<close>

definition sha256_new :: bytes where
  "sha256_new = []"

definition sha256_update :: "bytes \<Rightarrow> bytes \<Rightarrow> bytes" where
  "sha256_update h chunk = h @ chunk"

definition hexdigest :: "digest_fn \<Rightarrow> bytes \<Rightarrow> string" where
  "hexdigest H h = H h"

definition sha256_hex :: "digest_fn \<Rightarrow> bytes \<Rightarrow> string" where
  \<comment> \<open>\<open>hashlib.sha256(data).hexdigest()\<close>: the whole content in one update
     (lines 338-341, 663 and 696)\<close>
  "sha256_hex H data = hexdigest H (sha256_update sha256_new data)"

definition f_read :: "nat \<Rightarrow> bytes \<Rightarrow> bytes \<times> bytes" where
  \<comment> \<open>\<open>f.read(n)\<close> on what is left of the file: the chunk and what is left after it\<close>
  "f_read n rest = (take n rest, drop n rest)"

function hash_chunks :: "bytes \<Rightarrow> bytes \<Rightarrow> bytes" where
  \<comment> \<open>\<open>for chunk in iter(lambda: f.read(8192), b''): h.update(chunk)\<close>\<close>
  "hash_chunks h rest =
     (case f_read 8192 rest of
        (chunk, rest') \<Rightarrow>
          if chunk = [] then h else hash_chunks (sha256_update h chunk) rest')"
  by pat_completeness auto
termination
  by (relation "measure (\<lambda>(h, rest). length rest)") (auto simp: f_read_def)

declare hash_chunks.simps [simp del]

definition sha256_of_file :: "digest_fn \<Rightarrow> filesystem \<Rightarrow> path \<Rightarrow> exn + string" where
  "sha256_of_file H fs p =
     (case open_rb fs p of
        Inl e \<Rightarrow> Inl e
      | Inr bs \<Rightarrow> Inr (hexdigest H (hash_chunks sha256_new bs)))"

subsection \<open>Verification lookup (app.py, lines 591-720)\<close>

datatype metodo = GET | POST
















subsection \<open>Download (app.py, lines 724-732)\<close>

fun split_sep :: "string \<Rightarrow> string list" where
  \<comment> \<open>\<open>path.split('/')\<close>\<close>
  "split_sep [] = [[]]"
| "split_sep (c # cs) =
     (if c = CHR ''/'' then [] # split_sep cs
      else (case split_sep cs of
              [] \<Rightarrow> [[c]]
            | w # ws \<Rightarrow> (c # w) # ws))"

fun join_sep :: "string list \<Rightarrow> string" where
  \<comment> \<open>\<open>'/'.join(comps)\<close>\<close>
  "join_sep [] = []"
| "join_sep [w] = w"
| "join_sep (w # v # ws) = w @ ''/'' @ join_sep (v # ws)"

definition initial_slashes :: "string \<Rightarrow> nat" where
  \<comment> \<open>POSIX keeps two leading slashes, and takes three or more as one\<close>
  "initial_slashes p =
     (if startswith p ''/'' then
        (if startswith p ''//'' \<and> \<not> startswith p ''///'' then 2 else 1)
      else 0)"

definition norm_step :: "nat \<Rightarrow> string list \<Rightarrow> string \<Rightarrow> string list" where
  \<comment> \<open>the body of the loop of \<open>posixpath.normpath\<close> over the components\<close>
  "norm_step sl new_comps cp =
     (if cp = [] \<or> cp = ''.'' then new_comps
      else if cp \<noteq> ''..'' \<or> (sl = 0 \<and> new_comps = [])
               \<or> (new_comps \<noteq> [] \<and> last new_comps = ''..'')
      then new_comps @ [cp]
      else if new_comps \<noteq> [] then butlast new_comps
      else new_comps)"

definition normpath :: "path \<Rightarrow> path" where
  \<comment> \<open>\<open>os.path.normpath(path)\<close> on a POSIX system\<close>
  "normpath p =
     (if p = [] then ''.''
      else
        (let sl = initial_slashes p;
             comps = foldl (norm_step sl) [] (split_sep p);
             q = replicate sl (CHR ''/'') @ join_sep comps
         in if q = [] then ''.'' else q))"

definition basename :: "path \<Rightarrow> string" where
  \<comment> \<open>\<open>os.path.basename(p)\<close>: what follows the last slash\<close>
  "basename p = last (split_sep p)"

definition isfile :: "filesystem \<Rightarrow> path \<Rightarrow> bool" where
  \<comment> \<open>\<open>os.path.isfile(p)\<close>\<close>
  "isfile fs p = (arquivos fs p \<noteq> None)"

datatype resposta_download =
    Redirect_login            \<comment> \<open>\<open>login_required\<close>: no user in the session\<close>
  | Abort_404
  | Send_file path string     \<comment> \<open>\<open>send_file(file_path, download_name=...)\<close>\<close>

definition download :: "filesystem \<Rightarrow> path \<Rightarrow> bool \<Rightarrow> string \<Rightarrow> resposta_download" where
  \<comment> \<open>\<open>logado\<close> is the truth value of \<open>session.get("user")\<close>\<close>
  "download fs rp logado filename =
     (if \<not> logado then Redirect_login
      else
        (let base_dir = os_path_join rp [''static'', ''arquivos'', ''assinados''];
             file_path = normpath (os_path_join base_dir [filename])
         in if \<not> startswith file_path base_dir \<or> \<not> isfile fs file_path then Abort_404
            else Send_file file_path (basename file_path)))"

subsection \<open>Login rate limit (auth.py, lines 15-38, 61-86 and 112-167)\<close>

definition is_digit :: "char \<Rightarrow> bool" where
  \<comment> \<open>the class \<open>\d\<close> on a code point below 256\<close>
  "is_digit c = (let n = (of_char c :: nat) in 48 \<le> n \<and> n \<le> 57)"

definition email_chr :: "char \<Rightarrow> bool" where
  \<comment> \<open>the class \<open>[^@\s]\<close>\<close>
  "email_chr c = (c \<noteq> CHR ''@'' \<and> \<not> isspace c)"

definition dot_inside :: "string \<Rightarrow> bool" where
  \<comment> \<open>some dot has a character before it and a character after it\<close>
  "dot_inside d = list_ex (\<lambda>i. d ! i = CHR ''.'') [1 ..< length d - 1]"

definition is_valid_email :: "string \<Rightarrow> bool" where
  \<comment> \<open>\<open>_email_re.match((email or "").strip().lower())\<close> for the pattern
     \<open>^[^@\s]+@[^@\s]+\.[^@\s]+$\<close>: a stripped string has no final newline for \<open>$\<close>
     to skip\<close>
  "is_valid_email email =
     (let e = lower (strip email);
          a = takeWhile (\<lambda>c. c \<noteq> CHR ''@'') e;
          r = drop (length a) e
      in a \<noteq> [] \<and> list_all email_chr a \<and> r \<noteq> [] \<and>
         list_all email_chr (tl r) \<and> dot_inside (tl r))"

definition normalize_cpf :: "string option \<Rightarrow> string" where
  \<comment> \<open>\<open>re.sub(r"\D", "", cpf or "")\<close>\<close>
  "normalize_cpf cpf = filter is_digit (case cpf of None \<Rightarrow> [] | Some s \<Rightarrow> s)"

definition is_valid_cpf_digits :: "string \<Rightarrow> bool" where
  \<comment> \<open>\<open>_cpf_digits_re.match(cpf or "")\<close> for \<open>^\d{11}$\<close>; \<open>$\<close> also matches before
     a final newline\<close>
  "is_valid_cpf_digits cpf =
     ((length cpf = 11 \<and> list_all is_digit cpf) \<or>
      (length cpf = 12 \<and> list_all is_digit (take 11 cpf) \<and> last cpf = CHR 0x0A))"

type_synonym config = "string \<rightharpoonup> int"

definition cfg :: "config \<Rightarrow> string \<Rightarrow> int" where
  \<comment> \<open>\<open>_cfg(key)\<close>: the application's configuration, then the defaults\<close>
  "cfg c key =
     (case c key of
        Some v \<Rightarrow> v
      | None \<Rightarrow> (if key = ''MAX_LOGIN_ATTEMPTS'' then 5
                 else if key = ''LOCKOUT_SECONDS'' then 150 else 0))"

record tentativa =
  count :: int
  lock_until :: int

type_synonym login_attempts = "string \<rightharpoonup> tentativa"

definition key_for_login :: "string option \<Rightarrow> string option \<Rightarrow> string \<Rightarrow> string" where
  \<comment> \<open>\<open>_key_for_login(email)\<close>; \<open>xff\<close> is the header X-Forwarded-For and \<open>remote\<close>
     is \<open>request.remote_addr\<close>\<close>
  "key_for_login xff remote email =
     (let src = (case xff of
                   Some v \<Rightarrow> v
                 | None \<Rightarrow> (case remote of
                              None \<Rightarrow> ''0.0.0.0''
                            | Some a \<Rightarrow> if a = [] then ''0.0.0.0'' else a));
          ip = strip (takeWhile (\<lambda>c. c \<noteq> CHR '','') src)
      in lower email @ ''|'' @ ip)"

definition is_locked :: "login_attempts \<Rightarrow> string \<Rightarrow> int \<Rightarrow> int \<Rightarrow> int" where
  \<comment> \<open>\<open>_is_locked\<close>; \<open>t1\<close> and \<open>t2\<close> are what its two calls of \<open>_now()\<close> return\<close>
  "is_locked st key t1 t2 =
     (case st key of
        None \<Rightarrow> 0
      | Some e \<Rightarrow> if lock_until e > t1 then max 0 (lock_until e - t2) else 0)"

definition register_fail :: "config \<Rightarrow> login_attempts \<Rightarrow> string \<Rightarrow> int \<Rightarrow> login_attempts" where
  \<comment> \<open>\<open>_register_fail\<close>; \<open>t\<close> is what \<open>_now()\<close> returns\<close>
  "register_fail c st key t =
     (let e = (case st key of None \<Rightarrow> \<lparr>count = 0, lock_until = 0\<rparr> | Some e \<Rightarrow> e);
          e1 = e\<lparr>count := count e + 1\<rparr>;
          e2 = (if count e1 \<ge> cfg c ''MAX_LOGIN_ATTEMPTS''
                then e1\<lparr>lock_until := t + cfg c ''LOCKOUT_SECONDS'', count := 0\<rparr>
                else e1)
      in st(key \<mapsto> e2))"

definition clear_attempts :: "login_attempts \<Rightarrow> string \<Rightarrow> login_attempts" where
  \<comment> \<open>\<open>_login_attempts.pop(key, None)\<close>\<close>
  "clear_attempts st key = st(key := None)"

record usuario =
  u_email :: string
  u_nome :: string
  u_cpf_hash :: string
  u_cpf_masked :: string
  u_is_admin :: bool
  u_orgao :: string
  u_cargo :: string
  u_matricula :: string

datatype flash =
    Flash_csrf                  \<comment> \<open>"Sessao expirada ou solicitacao invalida (CSRF)."\<close>
  | Flash_email_cpf_incorreto   \<comment> \<open>"E-mail ou CPF incorreto."\<close>
  | Flash_tentativas int        \<comment> \<open>"Tentativas excedidas. Aguarde {mins} min ..."\<close>
  | Flash_invalidos             \<comment> \<open>"Usuario ou senha invalidos."\<close>

datatype resposta_login =
    Render_login
  | Redirect_to_login flash
  | Redirect_next string
  | Redirect_cadastro
  | Redirect_assinar

text \<open>
  A login request. \<open>next_l\<close> is the query parameter \<open>next\<close>; \<open>t1\<close>, \<open>t2\<close> and \<open>t3\<close>
  are what the clock returns to the calls of \<open>_now()\<close> this request can make, in order.
  The user table (\<open>User.query.filter_by(email=email).first()\<close>) is the function
  \<open>db\<close>, and \<open>chk\<close> is \<open>_check_hash\<close>, werkzeug's check of a password against its hash.
\<close>

record pedido_login =
  metodo_l :: metodo
  csrf_ok_l :: bool
  email_l :: "string option"
  cpf_l :: "string option"
  xff_l :: "string option"
  remote_l :: "string option"
  next_l :: "string option"

text \<open>
  The view returns its response, the attempt store and the user of the session
  (\<open>None\<close>: the session's user is left as it was).
\<close>

definition login ::
  "config \<Rightarrow> (string \<Rightarrow> usuario option) \<Rightarrow> (string \<Rightarrow> string \<Rightarrow> bool) \<Rightarrow> int \<times> int \<times> int
     \<Rightarrow> login_attempts \<Rightarrow> pedido_login
     \<Rightarrow> resposta_login \<times> login_attempts \<times> usuario option" where
  "login c db chk ts st req =
     (case ts of (t1, t2, t3) \<Rightarrow>
      (case metodo_l req of
        GET \<Rightarrow> (Render_login, st, None)
      | POST \<Rightarrow>
          if \<not> csrf_ok_l req then (Redirect_to_login Flash_csrf, st, None)
          else
            (let email = lower (strip (case email_l req of None \<Rightarrow> [] | Some s \<Rightarrow> s));
                 cpf_digits = normalize_cpf (cpf_l req);
                 key = key_for_login (xff_l req) (remote_l req) email
             in if \<not> is_valid_email email \<or> \<not> is_valid_cpf_digits cpf_digits
                then (Redirect_to_login Flash_email_cpf_incorreto, st, None)
                else
                  (let locked = is_locked st key t1 t2 in
                   if locked > 0
                   then (Redirect_to_login (Flash_tentativas ((locked + 59) div 60)), st, None)
                   else
                     (case db email of
                        None \<Rightarrow>
                          (Redirect_to_login Flash_invalidos, register_fail c st key t3, None)
                      | Some u \<Rightarrow>
                          if \<not> chk (u_cpf_hash u) cpf_digits
                          then (Redirect_to_login Flash_invalidos,
                                register_fail c st key t3, None)
                          else
                            (let st' = clear_attempts st key;
                                 resp =
                                   (case next_l req of
                                      None \<Rightarrow>
                                        if u_is_admin u then Redirect_cadastro
                                        else Redirect_assinar
                                    | Some n \<Rightarrow>
                                        if \<not> u_is_admin u \<and> n \<noteq> [] then Redirect_next n
                                        else if u_is_admin u then Redirect_cadastro
                                        else Redirect_assinar)
                             in (resp, st', Some u)))))))"

subsection \<open>Signing: arithmetic of the placement (app.py, lines 379-427 and 492-530)\<close>

definition py_int :: "real \<Rightarrow> int" where
  \<comment> \<open>\<open>int(x)\<close> on a float: truncation toward zero\<close>
  "py_int r = (if r < 0 then \<lceil>r\<rceil> else \<lfloor>r\<rfloor>)"

definition py_round :: "real \<Rightarrow> int" where
  \<comment> \<open>\<open>round(x)\<close> on a float: to the nearest integer, a half to the even one\<close>
  "py_round r =
     (let f = \<lfloor>r\<rfloor>; d = r - of_int f
      in if d < 1 / 2 then f
         else if d > 1 / 2 then f + 1
         else if even f then f else f + 1)"

definition py_div :: "real \<Rightarrow> real \<Rightarrow> exn + real" where
  \<comment> \<open>\<open>a / b\<close> on floats\<close>
  "py_div a b = (if b = 0 then Inl ZeroDivisionError else Inr (a / b))"

definition float_or :: "real option \<Rightarrow> real \<Rightarrow> real" where
  \<comment> \<open>\<open>_float(val, default)\<close>; \<open>None\<close> is a value \<open>float\<close> raises on (a missing
     field, a string that is no number)\<close>
  "float_or v d = (case v of None \<Rightarrow> d | Some r \<Rightarrow> r)"

definition pagina_valida :: "int \<Rightarrow> int \<Rightarrow> int" where
  \<comment> \<open>lines 380-384: \<open>page_num\<close> after the two tests, for \<open>page_count = doc.page_count\<close>\<close>
  "pagina_valida page_num page_count =
     (let p = (if page_num < 1 then 1 else page_num)
      in if p > page_count then page_count else p)"

record retangulo =
  ponto_x :: int
  ponto_y :: int
  ponto_w :: int
  ponto_h :: int

text \<open>
  Lines 391-402 on a PDF page (\<open>pdf_w\<close>, \<open>pdf_h\<close>) and, with the same statements, lines
  494-513 on an image (\<open>largura_real\<close>, \<open>altura_real\<close>): the rectangle of the canvas
  in the units of the target.
\<close>

definition escala_retangulo ::
  "real \<Rightarrow> real \<Rightarrow> real \<Rightarrow> real \<Rightarrow> real \<Rightarrow> real \<Rightarrow> real \<Rightarrow> real \<Rightarrow> exn + retangulo" where
  "escala_retangulo x y w h canvas_w canvas_h nat_w nat_h =
     (let cw = (if canvas_w \<le> 0 then nat_w else canvas_w);
          ch = (if canvas_h \<le> 0 then nat_h else canvas_h)
      in case py_div nat_w cw of
           Inl e \<Rightarrow> Inl e
         | Inr escala_x \<Rightarrow>
             (case py_div nat_h ch of
                Inl e \<Rightarrow> Inl e
              | Inr escala_y \<Rightarrow>
                  Inr \<lparr>ponto_x = py_int (x * escala_x),
                       ponto_y = py_int (y * escala_y),
                       ponto_w = max 1 (py_int (w * escala_x)),
                       ponto_h = max 1 (py_int (h * escala_y))\<rparr>))"

record layout_pdf =
  escala_s :: real
  qr_w :: int
  qr_h :: int
  brasao_w :: int
  brasao_h :: int
  gap_pt :: int
  font_size_normal :: int
  font_size_status :: int
  espaco_entre_linhas :: int
  x_icones :: int
  y_icones :: int
  inicio_y_texto :: int
  chars_por_linha :: int

definition fator_escala :: "retangulo \<Rightarrow> real" where
  \<comment> \<open>lines 406-411: \<open>s\<close>, for \<open>BASE_W = 190.0\<close> and \<open>BASE_H = 180.0\<close>\<close>
  "fator_escala r =
     (let s_w = real_of_int (ponto_w r) / 190;
          s_h = real_of_int (ponto_h r) / 180
      in max (6 / 10) (min 4 (min s_w s_h)))"

definition layout_do_pdf :: "retangulo \<Rightarrow> layout_pdf" where
  \<comment> \<open>lines 413-427, 445 and 461\<close>
  "layout_do_pdf r =
     (let s = fator_escala r;
          qw = py_round (35 * s);
          qh = py_round (35 * s);
          bw = py_round (25 * s);
          bh = py_round (35 * s);
          gap = py_round (6 * s);
          fn = max 6 (py_round (9 * s));
          total_icons_w = qw + gap + bw;
          xi = ponto_x r + py_int (real_of_int (ponto_w r - total_icons_w) / 2);
          yi = ponto_y r + py_round (10 * s)
      in \<lparr>escala_s = s, qr_w = qw, qr_h = qh, brasao_w = bw, brasao_h = bh, gap_pt = gap,
          font_size_normal = fn,
          font_size_status = max 8 (py_round (13 * s)),
          espaco_entre_linhas = max 8 (py_round (12 * s)),
          x_icones = xi, y_icones = yi,
          inicio_y_texto = yi + max qh bh + py_round (8 * s),
          chars_por_linha =
            max 20 (py_int (real_of_int (ponto_w r - 16) / (real_of_int fn * (6 / 10))))\<rparr>)"

record layout_img =
  x_icones_img :: int
  y_icones_img :: int
  y_texto_img :: int

definition layout_da_imagem :: "retangulo \<Rightarrow> layout_img" where
  \<comment> \<open>lines 519-530: the QR is 50 by 50, the seal 35 by 50, the gap 6\<close>
  "layout_da_imagem r =
     (let total_icons_w = 50 + 6 + 35;
          xi = ponto_x r + py_int (real_of_int (ponto_w r - total_icons_w) / 2);
          yi = ponto_y r + 10
      in \<lparr>x_icones_img = xi, y_icones_img = yi, y_texto_img = yi + max 50 50 + 8\<rparr>)"

section \<open>Properties\<close>

subsection \<open>The content hasher\<close>

lemma hash_chunks_append: "hash_chunks h rest = h @ rest"
proof (induction h rest rule: hash_chunks.induct)
  case (1 h rest)
  show ?case
  proof (cases "take 8192 rest = []")
    case True
    then have "rest = []" by simp
    then show ?thesis by (subst hash_chunks.simps) (simp add: f_read_def)
  next
    case False
    have "hash_chunks h rest = hash_chunks (sha256_update h (take 8192 rest)) (drop 8192 rest)"
      using False by (subst hash_chunks.simps) (simp add: f_read_def)
    also have "\<dots> = sha256_update h (take 8192 rest) @ drop 8192 rest"
      using False by (intro "1.IH") (simp_all add: f_read_def)
    also have "\<dots> = h @ rest"
      by (simp add: sha256_update_def)
    finally show ?thesis .
  qed
qed

lemma sha256_of_file_Some:
  "arquivos fs p = Some bs \<Longrightarrow> sha256_of_file H fs p = Inr (sha256_hex H bs)"
  by (simp add: sha256_of_file_def open_rb_def sha256_hex_def hexdigest_def
      sha256_update_def sha256_new_def hash_chunks_append)


text \<open>
  C8. The streamed digest of a file (\<open>sha256_of_file\<close>, chunks of 8192 bytes) is the
  one-shot digest of the file's bytes (\<open>sha256_hex\<close>, the whole content in one update).
  The loop ends on every file, and the digest depends on the content only: two files
  with the same bytes, under any two names in any two file systems, have the same
  digest.
\<close>

theorem sha256_of_file_streamed_eq_oneshot:
  assumes "arquivos fs p = Some bs" and "arquivos fs' q = Some bs"
  shows "sha256_of_file H fs p = Inr (sha256_hex H bs) \<and>
         sha256_of_file H fs' q = sha256_of_file H fs p"
  using assms by (simp add: sha256_of_file_Some)

theorem sha256_of_file_streamed_eq_oneshot_witness:
  "sha256_of_file rev
     \<lparr>arquivos = [''a.pdf'' \<mapsto> ''xyz'', ''b.pdf'' \<mapsto> ''xyz''], pastas = Map.empty\<rparr> ''a.pdf''
     = Inr ''zyx'' \<and>
   sha256_of_file rev
     \<lparr>arquivos = [''a.pdf'' \<mapsto> ''xyz'', ''b.pdf'' \<mapsto> ''xyz''], pastas = Map.empty\<rparr> ''b.pdf''
     = sha256_of_file rev
         \<lparr>arquivos = [''a.pdf'' \<mapsto> ''xyz'', ''b.pdf'' \<mapsto> ''xyz''], pastas = Map.empty\<rparr>
         ''a.pdf''"
  using sha256_of_file_streamed_eq_oneshot
    [of "\<lparr>arquivos = [''a.pdf'' \<mapsto> ''xyz'', ''b.pdf'' \<mapsto> ''xyz''], pastas = Map.empty\<rparr>"
        "''a.pdf''" "''xyz''"
        "\<lparr>arquivos = [''a.pdf'' \<mapsto> ''xyz'', ''b.pdf'' \<mapsto> ''xyz''], pastas = Map.empty\<rparr>"
        "''b.pdf''" rev]
  by (simp add: sha256_hex_def hexdigest_def sha256_update_def sha256_new_def)

subsection \<open>Download\<close>

text \<open>
  C9. The guard of \<open>download\<close> compares strings: a normalised path that begins with
  the characters of the store's directory passes it, also when it names a file of a
  sibling directory whose name begins with \<open>assinados\<close>. Here the file
  \<open>/app/static/arquivos/assinados_old/x.pdf\<close> is outside the store and is served.
\<close>

theorem download_serves_sibling_directory:
  "download
     \<lparr>arquivos = [''/app/static/arquivos/assinados_old/x.pdf'' \<mapsto> ''secret''],
      pastas = Map.empty\<rparr>
     ''/app'' True ''../assinados_old/x.pdf''
   = Send_file ''/app/static/arquivos/assinados_old/x.pdf'' ''x.pdf''"
  by (simp add: download_def os_path_join_def join_step_def normpath_def
      initial_slashes_def norm_step_def basename_def isfile_def)

theorem download_serves_sibling_directory_witness:
  "download
     \<lparr>arquivos = [''/app/static/arquivos/assinados_old/x.pdf'' \<mapsto> ''secret''],
      pastas = Map.empty\<rparr>
     ''/app'' True ''../assinados_old/x.pdf''
   \<noteq> Abort_404"
  using download_serves_sibling_directory by simp

subsection \<open>Verification by upload\<close>





subsection \<open>Verification by code\<close>







subsection \<open>Login rate limit\<close>

lemma register_fail_default:
  "register_fail Map.empty st key t =
     st(key \<mapsto>
       (let e = (case st key of None \<Rightarrow> \<lparr>count = 0, lock_until = 0\<rparr> | Some e \<Rightarrow> e)
        in if count e + 1 \<ge> 5 then \<lparr>count = 0, lock_until = t + 150\<rparr>
           else \<lparr>count = count e + 1, lock_until = lock_until e\<rparr>))"
  by (cases "case st key of None \<Rightarrow> \<lparr>count = 0, lock_until = 0\<rparr> | Some e \<Rightarrow> e")
     (simp add: register_fail_def cfg_def Let_def)


text \<open>
  The store's invariant: every count stays in \<open>{0..4}\<close>, so a count that reaches 5 is
  exactly 5 before it is reset.
\<close>

lemma login_keeps_count_below_max:
  assumes "\<forall>k e. st k = Some e \<longrightarrow> 0 \<le> count e \<and> count e < 5"
    and "fst (snd (login Map.empty db chk ts st req)) k = Some e"
  shows "0 \<le> count e \<and> count e < 5"
  using assms
  by (cases ts; cases "metodo_l req")
     (auto simp: login_def Let_def register_fail_default clear_attempts_def
       split: if_splits option.splits)


end
